theory Spec2Isabelle
  imports Complex_Main
begin

section \<open>Entities\<close>

text \<open>
  The resolver of \<^verbatim>\<open>src/server/resolvers/post.resolver.ts\<close> works on four entities. Their
  classes are declared in \<^verbatim>\<open>../entities/*.entity\<close>; only the attributes the resolver reads or
  writes are kept here.

  A value of type \<open>User\<close> stands for one in-memory object. The resolver compares such objects
  with \<^verbatim>\<open>!==\<close>, which tells two objects apart even when they hold the same row, so a
  \<open>User\<close> carries, next to the identifier of its row, the field \<open>user_obj\<close> that numbers the
  objects loaded for that row. Two values of type \<open>User\<close> are the same object exactly when they
  are equal. No other entity is ever compared by reference.
\<close>

record User =
  user_id :: string
  user_obj :: nat

record Type =
  type_id :: string

record Draft =
  draft_id :: string
  draft_title :: string
  draft_slug :: string
  draft_body :: "string option"
  draft_type :: Type
  draft_writer :: User

record Post =
  post_id :: string
  post_title :: string
  post_slug :: string
  post_body :: "string option"
  post_type :: Type
  post_writer :: User

section \<open>Inputs, errors and the request context\<close>

text \<open>
  The three input classes, lines 28 to 62. The length bounds on \<open>title\<close> and \<open>slug\<close> are
  checked by the schema framework before the resolver is called; the resolver itself does
  not look at them.

  A nullable field of the input of \<open>post\<close> is spread into the filter as it comes, so it has
  three states: left out, given as \<^verbatim>\<open>null\<close>, or given a value. For the other two inputs
  \<^verbatim>\<open>null\<close> and a field left out are treated alike by the resolver (both are falsy in
  \<open>Posts\<close>; either is stored as no body by \<open>updatePost\<close>), and a nullable field is an
  \<open>option\<close>.
\<close>

datatype 'a field = Absent | Null | Given 'a

record PostMutationInput =
  in_title :: string
  in_slug :: string
  in_body :: "string option"
  in_type :: string

record PostQueryInput =
  q_id :: "string field"
  q_slug :: "string field"
  q_title :: "string field"

record PostsQueryInput =
  f_type :: "string option"
  f_writer :: "string option"

text \<open>
  The three error classes of \<^verbatim>\<open>apollo-server-errors\<close> that the resolver throws, and \<open>StoreError\<close>
  for an exception of the data-access layer that no \<^verbatim>\<open>catch\<close> of the resolver converts.
\<close>

datatype error = AuthenticationError | UserInputError | ForbiddenError | StoreError

text \<open>
  The repositories reached through \<^verbatim>\<open>ctx.em\<close>: one table per entity, in the order of the store.
\<close>

record store =
  users :: "User list"
  types :: "Type list"
  drafts :: "Draft list"
  posts :: "Post list"

text \<open>
  The context \<^verbatim>\<open>MyContext\<close>: the entity manager \<^verbatim>\<open>ctx.em\<close>, the identifier \<^verbatim>\<open>ctx.req.user\<close> that
  the authentication middleware has put into the request, the identifier the constructor of
  \<open>Post\<close> gives to a new object, and two traits of the database behind the entity manager.
  \<open>accepts s\<close> tells whether a flush that would leave the store as \<open>s\<close> is committed.
  \<open>other_bounds limit offset n\<close> is what the database makes of page bounds that are not both
  natural numbers, when \<open>n\<close> rows match: it throws, or it pages by bounds of its own (no
  limit, or a limit, and an offset).
\<close>

record MyContext =
  em :: store
  req_user :: string
  fresh_id :: string
  accepts :: "store \<Rightarrow> bool"
  other_bounds :: "rat \<Rightarrow> rat \<Rightarrow> nat \<Rightarrow> error + nat option \<times> nat"

section \<open>The data-access layer\<close>

text \<open>
  Modelled from the spec: the repository methods of the object-relational mapper, which is
  not among the sources. \<open>findOneOrFail\<close> returns the first row that matches and throws
  (\<open>None\<close>) when there is none; \<open>findOne\<close> returns \<^verbatim>\<open>null\<close> (\<open>None\<close>) instead. \<open>findOne\<close>
  refuses a filter without any field by an exception of its own; that case is written out
  in \<open>post\<close> below, where the filter is built.
\<close>

definition findOneOrFail :: "('a \<Rightarrow> bool) \<Rightarrow> 'a list \<Rightarrow> 'a option" where
  "findOneOrFail cond rows = List.find cond rows"

definition findOne :: "('a \<Rightarrow> bool) \<Rightarrow> 'a list \<Rightarrow> 'a option" where
  "findOne cond rows = List.find cond rows"

text \<open>
  Modelled from the spec: \<open>flush\<close> is atomic. The pending change is committed when the
  database accepts the store it leads to; otherwise the flush throws (\<open>None\<close>) and the store
  stays as it was.
\<close>

definition flush :: "MyContext \<Rightarrow> store \<Rightarrow> store option" where
  "flush ctx s = (if accepts ctx s then Some s else None)"

text \<open>
  Modelled from the spec: \<open>persist\<close> of a new Post inserts its row after the rows present;
  \<open>remove\<close> deletes by primary key; the flush of a changed Post writes the assigned columns
  \<open>title\<close>, \<open>slug\<close> and \<open>body\<close> of the row with its primary key.
\<close>

definition persist_Post :: "Post \<Rightarrow> store \<Rightarrow> store" where
  "persist_Post p s = s\<lparr>posts := posts s @ [p]\<rparr>"

definition remove_Draft :: "Draft \<Rightarrow> store \<Rightarrow> store" where
  "remove_Draft d s = s\<lparr>drafts := filter (\<lambda>r. draft_id r \<noteq> draft_id d) (drafts s)\<rparr>"

definition remove_Post :: "Post \<Rightarrow> store \<Rightarrow> store" where
  "remove_Post p s = s\<lparr>posts := filter (\<lambda>r. post_id r \<noteq> post_id p) (posts s)\<rparr>"

definition write_Post :: "Post \<Rightarrow> Post \<Rightarrow> Post" where
  "write_Post p r =
     (if post_id r = post_id p
      then r\<lparr>post_title := post_title p, post_slug := post_slug p, post_body := post_body p\<rparr>
      else r)"

definition update_Post :: "Post \<Rightarrow> store \<Rightarrow> store" where
  "update_Post p s = s\<lparr>posts := map (write_Post p) (posts s)\<rparr>"

text \<open>
  Modelled from the spec: \<open>find\<close> with a filter and the options \<open>limit\<close> and \<open>offset\<close> returns
  a page of the rows that match, in the order of the store. An entity in the filter is
  compared by its primary key.

  The resolver takes the two bounds as \<^verbatim>\<open>number\<close> and hands them on unchecked, so they are
  rationals here. When both are natural numbers, a limit of zero sets no limit (the layer
  tests the option for truthiness, as it does the offset) and any other limit is the length
  of the page. What becomes of a negative or fractional bound is left to the database: the
  context says it in \<open>other_bounds\<close>. Whatever the bounds, the rows returned are a run of
  the rows that match.
\<close>

record PostFilter =
  by_type :: "Type option"
  by_writer :: "User option"

definition matches :: "PostFilter \<Rightarrow> Post \<Rightarrow> bool" where
  "matches flt p =
     ((case by_type flt of None \<Rightarrow> True | Some t \<Rightarrow> type_id (post_type p) = type_id t) \<and>
      (case by_writer flt of None \<Rightarrow> True | Some w \<Rightarrow> user_id (post_writer p) = user_id w))"

definition whole :: "rat \<Rightarrow> bool" where
  "whole x = (0 \<le> x \<and> of_int \<lfloor>x\<rfloor> = x)"

definition bounds :: "MyContext \<Rightarrow> rat \<Rightarrow> rat \<Rightarrow> nat \<Rightarrow> error + nat option \<times> nat" where
  "bounds ctx limit offset n =
     (if whole limit \<and> whole offset
      then Inr (if limit = 0 then None else Some (nat \<lfloor>limit\<rfloor>), nat \<lfloor>offset\<rfloor>)
      else other_bounds ctx limit offset n)"

definition slice :: "nat option \<Rightarrow> nat \<Rightarrow> 'a list \<Rightarrow> 'a list" where
  "slice l k rows = (case l of None \<Rightarrow> drop k rows | Some n \<Rightarrow> take n (drop k rows))"

definition find_page ::
  "MyContext \<Rightarrow> PostFilter \<Rightarrow> rat \<Rightarrow> rat \<Rightarrow> Post list \<Rightarrow> error + Post list" where
  "find_page ctx flt limit offset rows =
     (case bounds ctx limit offset (length (filter (matches flt) rows)) of
        Inl e \<Rightarrow> Inl e
      | Inr (l, k) \<Rightarrow> Inr (slice l k (filter (matches flt) rows)))"

text \<open>
  Modelled from the spec: the constructor of \<open>Post\<close>, declared in \<^verbatim>\<open>../entities/post.entity\<close>
  and not among the sources. It copies title, body, type and writer of the Draft; the slug is
  left empty, and the resolver assigns it on the next line.
\<close>

definition new_Post :: "string \<Rightarrow> Draft \<Rightarrow> Post" where
  "new_Post i d =
     \<lparr>post_id = i, post_title = draft_title d, post_slug = [], post_body = draft_body d,
      post_type = draft_type d, post_writer = draft_writer d\<rparr>"

section \<open>The resolver\<close>

text \<open>
  Every operation returns its result, or the error it throws, with the store it leaves behind.
\<close>

text \<open>\<^verbatim>\<open>createPost\<close>, lines 115 to 145.\<close>

definition createPost :: "string \<Rightarrow> string \<Rightarrow> MyContext \<Rightarrow> (error + Post) \<times> store" where
  "createPost draft_id' slug ctx =
     (case findOneOrFail (\<lambda>u. user_id u = req_user ctx) (users (em ctx)) of
        None \<Rightarrow> (Inl AuthenticationError, em ctx)
      | Some user \<Rightarrow>
          (case findOneOrFail (\<lambda>d. draft_id d = draft_id') (drafts (em ctx)) of
             None \<Rightarrow> (Inl UserInputError, em ctx)
           | Some draft \<Rightarrow>
               if draft_writer draft \<noteq> user then (Inl ForbiddenError, em ctx)
               else
                 let post = (new_Post (fresh_id ctx) draft)\<lparr>post_slug := slug\<rparr> in
                 (case flush ctx (persist_Post post (em ctx)) of
                    None \<Rightarrow> (Inl UserInputError, em ctx)
                  | Some s1 \<Rightarrow>
                      (case flush ctx (remove_Draft draft s1) of
                         None \<Rightarrow> (Inl UserInputError, s1)
                       | Some s2 \<Rightarrow> (Inr post, s2)))))"

text \<open>
  \<^verbatim>\<open>deletePost\<close>, lines 147 to 168. The last flush stands outside every \<^verbatim>\<open>try\<close>: its
  exception leaves the resolver as it is.
\<close>

definition deletePost :: "string \<Rightarrow> MyContext \<Rightarrow> (error + bool) \<times> store" where
  "deletePost id' ctx =
     (case findOneOrFail (\<lambda>u. user_id u = req_user ctx) (users (em ctx)) of
        None \<Rightarrow> (Inl AuthenticationError, em ctx)
      | Some user \<Rightarrow>
          (case findOneOrFail (\<lambda>p. post_id p = id') (posts (em ctx)) of
             None \<Rightarrow> (Inl UserInputError, em ctx)
           | Some post \<Rightarrow>
               if user \<noteq> post_writer post then (Inl ForbiddenError, em ctx)
               else
                 (case flush ctx (remove_Post post (em ctx)) of
                    None \<Rightarrow> (Inl StoreError, em ctx)
                  | Some s1 \<Rightarrow> (Inr True, s1))))"

text \<open>\<^verbatim>\<open>updatePost\<close>, lines 170 to 197.\<close>

definition updatePost :: "string \<Rightarrow> PostMutationInput \<Rightarrow> MyContext \<Rightarrow> (error + Post) \<times> store" where
  "updatePost id' input ctx =
     (case findOneOrFail (\<lambda>u. user_id u = req_user ctx) (users (em ctx)) of
        None \<Rightarrow> (Inl AuthenticationError, em ctx)
      | Some user \<Rightarrow>
          (case findOneOrFail (\<lambda>p. post_id p = id') (posts (em ctx)) of
             None \<Rightarrow> (Inl UserInputError, em ctx)
           | Some post0 \<Rightarrow>
               if user \<noteq> post_writer post0 then (Inl ForbiddenError, em ctx)
               else
                 let post = post0\<lparr>post_title := in_title input, post_slug := in_slug input,
                                   post_body := in_body input\<rparr> in
                 (case flush ctx (update_Post post (em ctx)) of
                    None \<Rightarrow> (Inl UserInputError, em ctx)
                  | Some s1 \<Rightarrow> (Inr post, s1))))"

text \<open>
  \<^verbatim>\<open>Posts\<close>, lines 80 to 113. The tests \<^verbatim>\<open>if(input.type)\<close> and \<^verbatim>\<open>if(input.writer)\<close> are tests
  of truthiness: an absent field and the empty string both skip the lookup. The call of
  \<open>find\<close> stands outside every \<^verbatim>\<open>try\<close>.
\<close>

definition truthy :: "string option \<Rightarrow> bool" where
  "truthy v = (case v of None \<Rightarrow> False | Some s \<Rightarrow> s \<noteq> [])"

definition filter_type :: "PostsQueryInput \<Rightarrow> MyContext \<Rightarrow> error + Type option" where
  "filter_type input ctx =
     (if truthy (f_type input) then
        (case findOneOrFail (\<lambda>t. Some (type_id t) = f_type input) (types (em ctx)) of
           None \<Rightarrow> Inl UserInputError
         | Some t \<Rightarrow> Inr (Some t))
      else Inr None)"

definition filter_writer :: "PostsQueryInput \<Rightarrow> MyContext \<Rightarrow> error + User option" where
  "filter_writer input ctx =
     (if truthy (f_writer input) then
        (case findOneOrFail (\<lambda>u. Some (user_id u) = f_writer input) (users (em ctx)) of
           None \<Rightarrow> Inl UserInputError
         | Some w \<Rightarrow> Inr (Some w))
      else Inr None)"

definition Posts :: "PostsQueryInput \<Rightarrow> rat \<Rightarrow> rat \<Rightarrow> MyContext \<Rightarrow> error + Post list" where
  "Posts input limit offset ctx =
     (case filter_type input ctx of
        Inl e \<Rightarrow> Inl e
      | Inr ft \<Rightarrow>
          (case filter_writer input ctx of
             Inl e \<Rightarrow> Inl e
           | Inr fw \<Rightarrow>
               find_page ctx \<lparr>by_type = ft, by_writer = fw\<rparr> limit offset (posts (em ctx))))"

text \<open>
  The arguments \<^verbatim>\<open>limit\<close> and \<^verbatim>\<open>offset\<close> are declared with the default values 10 and 0
  (lines 83 and 84): a request that leaves one out runs \<open>Posts\<close> with the default.
\<close>

definition Posts_request ::
  "PostsQueryInput \<Rightarrow> rat option \<Rightarrow> rat option \<Rightarrow> MyContext \<Rightarrow> error + Post list" where
  "Posts_request input limit offset ctx =
     Posts input (case limit of None \<Rightarrow> 10 | Some l \<Rightarrow> l)
       (case offset of None \<Rightarrow> 0 | Some k \<Rightarrow> k) ctx"

text \<open>
  \<^verbatim>\<open>post\<close>, lines 67 to 77. The input is spread into the filter of \<open>findOne\<close>. A field left
  out puts no condition on the row; a field given as \<^verbatim>\<open>null\<close> asks for a row whose column is
  null, and the three columns of a Post are never null; a field given a value asks for that
  value. The answer is the first Post that agrees with every field, or \<^verbatim>\<open>null\<close>. With every
  field left out the filter is empty and \<open>findOne\<close> throws; nothing in the resolver catches
  that.
\<close>

definition agrees :: "string field \<Rightarrow> string \<Rightarrow> bool" where
  "agrees v x = (case v of Absent \<Rightarrow> True | Null \<Rightarrow> False | Given y \<Rightarrow> x = y)"

definition post :: "PostQueryInput \<Rightarrow> MyContext \<Rightarrow> error + Post option" where
  "post input ctx =
     (if q_id input = Absent \<and> q_slug input = Absent \<and> q_title input = Absent
      then Inl StoreError
      else
        Inr (findOne (\<lambda>p. agrees (q_id input) (post_id p) \<and> agrees (q_slug input) (post_slug p) \<and>
                          agrees (q_title input) (post_title p))
               (posts (em ctx))))"

section \<open>One object per row\<close>

text \<open>
  A data-access layer with an identity map hands out one object per row: two User objects
  with the same identifier are then the same object.
\<close>

definition one_object_per_row :: "User \<Rightarrow> User \<Rightarrow> bool" where
  "one_object_per_row a b = (user_id a = user_id b \<longrightarrow> a = b)"

section \<open>A small store for the examples\<close>

text \<open>
  Two users; \<open>alice_again\<close> is a second in-memory object for the row of \<open>alice\<close>. Alice wrote
  the Draft \<open>d1\<close> and the Post \<open>p1\<close>, Bob the Post \<open>p2\<close>; the writer of the Draft \<open>d2\<close> and of
  the Post \<open>p3\<close> is the second object for Alice's row.
\<close>

definition alice :: User where
  "alice = \<lparr>user_id = ''alice'', user_obj = 0\<rparr>"

definition alice_again :: User where
  "alice_again = \<lparr>user_id = ''alice'', user_obj = 1\<rparr>"

definition bob :: User where
  "bob = \<lparr>user_id = ''bob'', user_obj = 0\<rparr>"

definition news :: Type where
  "news = \<lparr>type_id = ''news''\<rparr>"

definition essay :: Type where
  "essay = \<lparr>type_id = ''essay''\<rparr>"

definition draft1 :: Draft where
  "draft1 = \<lparr>draft_id = ''d1'', draft_title = ''Hello'', draft_slug = ''old'',
     draft_body = Some ''text'', draft_type = news, draft_writer = alice\<rparr>"

definition draft2 :: Draft where
  "draft2 = \<lparr>draft_id = ''d2'', draft_title = ''Again'', draft_slug = ''again'',
     draft_body = None, draft_type = essay, draft_writer = alice_again\<rparr>"

definition post1 :: Post where
  "post1 = \<lparr>post_id = ''p1'', post_title = ''First'', post_slug = ''first'',
     post_body = Some ''one'', post_type = news, post_writer = alice\<rparr>"

definition post2 :: Post where
  "post2 = \<lparr>post_id = ''p2'', post_title = ''Second'', post_slug = ''second'',
     post_body = None, post_type = essay, post_writer = bob\<rparr>"

definition post3 :: Post where
  "post3 = \<lparr>post_id = ''p3'', post_title = ''Third'', post_slug = ''third'',
     post_body = Some ''three'', post_type = news, post_writer = alice_again\<rparr>"

definition store0 :: store where
  "store0 = \<lparr>users = [alice, bob], types = [news, essay], drafts = [draft1, draft2],
     posts = [post1, post2, post3]\<rparr>"

text \<open>A database that accepts every write, one that wants the slugs of its Posts distinct,
  and one that does not let go of a Draft. All of them throw on page bounds that are not
  natural numbers.\<close>

definition rejects_bounds :: "rat \<Rightarrow> rat \<Rightarrow> nat \<Rightarrow> error + nat option \<times> nat" where
  "rejects_bounds limit offset n = Inl StoreError"


definition accepts_all :: "store \<Rightarrow> bool" where
  "accepts_all s = True"

definition slugs_unique :: "store \<Rightarrow> bool" where
  "slugs_unique s = distinct (map post_slug (posts s))"

definition drafts_kept :: "store \<Rightarrow> bool" where
  "drafts_kept s = (2 \<le> length (drafts s))"

definition ctx_alice :: MyContext where
  "ctx_alice = \<lparr>em = store0, req_user = ''alice'', fresh_id = ''p4'', accepts = accepts_all,
     other_bounds = rejects_bounds\<rparr>"

definition ctx_bob :: MyContext where
  "ctx_bob = \<lparr>em = store0, req_user = ''bob'', fresh_id = ''p4'', accepts = accepts_all,
     other_bounds = rejects_bounds\<rparr>"

definition ctx_carol :: MyContext where
  "ctx_carol = \<lparr>em = store0, req_user = ''carol'', fresh_id = ''p4'', accepts = accepts_all,
     other_bounds = rejects_bounds\<rparr>"

definition ctx_unique :: MyContext where
  "ctx_unique = \<lparr>em = store0, req_user = ''alice'', fresh_id = ''p4'', accepts = slugs_unique,
     other_bounds = rejects_bounds\<rparr>"

definition ctx_kept :: MyContext where
  "ctx_kept = \<lparr>em = store0, req_user = ''alice'', fresh_id = ''p4'', accepts = drafts_kept,
     other_bounds = rejects_bounds\<rparr>"

section \<open>Lookups and pages\<close>

lemma findOneOrFail_None:
  "findOneOrFail cond rows = None \<longleftrightarrow> (\<forall>r \<in> set rows. \<not> cond r)"
  by (auto simp add: findOneOrFail_def find_None_iff)

lemma findOneOrFail_Some:
  "findOneOrFail cond rows = Some r \<Longrightarrow> r \<in> set rows \<and> cond r"
  by (auto simp add: findOneOrFail_def find_Some_iff)

lemma findOneOrFail_exists:
  "r \<in> set rows \<Longrightarrow> cond r \<Longrightarrow> \<exists>r'. findOneOrFail cond rows = Some r'"
  using findOneOrFail_None [of cond rows] by (cases "findOneOrFail cond rows") auto

lemma page_by_index:
  "take l (drop k xs) = map (\<lambda>j. xs ! j) [k ..< min (k + l) (length xs)]"
  by (auto simp add: list_eq_iff_nth_eq min_def)

lemma filter_type_error:
  "filter_type input ctx = Inl e \<Longrightarrow> e = UserInputError"
  by (simp add: filter_type_def split: if_splits option.splits)

lemma filter_type_result:
  assumes "f_type input = Some T" and "T \<noteq> []" and "filter_type input ctx = Inr ft"
  shows "\<exists>t. ft = Some t \<and> type_id t = T"
proof -
  obtain t
    where t: "findOneOrFail (\<lambda>t. Some (type_id t) = f_type input) (types (em ctx)) = Some t"
      and ft: "ft = Some t"
    using assms by (auto simp add: filter_type_def truthy_def split: option.splits)
  from findOneOrFail_Some [OF t] assms(1) ft show ?thesis by simp
qed

lemma filter_writer_error:
  "filter_writer input ctx = Inl e \<Longrightarrow> e = UserInputError"
  by (simp add: filter_writer_def split: if_splits option.splits)

lemma whole_of_nat: "whole (of_nat n)"
  by (simp add: whole_def)

lemma bounds_of_nat:
  "bounds ctx (of_nat n) (of_nat m) c = Inr (if n = 0 then None else Some n, m)"
  by (simp add: bounds_def whole_of_nat)

lemma set_slice: "set (slice l k rows) \<subseteq> set rows"
  by (auto simp add: slice_def split: option.splits dest: in_set_takeD in_set_dropD)

lemma find_page_members:
  assumes "find_page ctx flt limit offset rows = Inr page"
  shows "\<forall>p \<in> set page. p \<in> set rows \<and> matches flt p"
proof -
  have "\<exists>l k. page = slice l k (filter (matches flt) rows)"
    using assms by (auto simp add: find_page_def split: sum.splits prod.splits)
  then obtain l k where "page = slice l k (filter (matches flt) rows)"
    by blast
  then show ?thesis
    using set_slice [of l k "filter (matches flt) rows"] by auto
qed

lemma Posts_empty_type:
  assumes "f_type input = Some []"
  shows "Posts input l k ctx = Posts (input\<lparr>f_type := None\<rparr>) l k ctx"
proof -
  have t: "filter_type (input\<lparr>f_type := None\<rparr>) ctx = filter_type input ctx"
    using assms by (simp add: filter_type_def truthy_def)
  have w: "filter_writer (input\<lparr>f_type := None\<rparr>) ctx = filter_writer input ctx"
    by (simp add: filter_writer_def)
  show ?thesis
    unfolding Posts_def t w by (rule refl)
qed

lemma Posts_empty_writer:
  assumes "f_writer input = Some []"
  shows "Posts input l k ctx = Posts (input\<lparr>f_writer := None\<rparr>) l k ctx"
proof -
  have t: "filter_type (input\<lparr>f_writer := None\<rparr>) ctx = filter_type input ctx"
    by (simp add: filter_type_def)
  have w: "filter_writer (input\<lparr>f_writer := None\<rparr>) ctx = filter_writer input ctx"
    using assms by (simp add: filter_writer_def truthy_def)
  show ?thesis
    unfolding Posts_def t w by (rule refl)
qed

lemma Posts_only_type:
  assumes "f_type input = Some T" and "T \<noteq> []" and "Posts input l k ctx = Inr page"
  shows "\<forall>p \<in> set page. type_id (post_type p) = T"
proof -
  have "\<exists>ft fw. filter_type input ctx = Inr ft
      \<and> find_page ctx \<lparr>by_type = ft, by_writer = fw\<rparr> l k (posts (em ctx)) = Inr page"
    using assms(3) by (auto simp add: Posts_def split: sum.splits)
  then obtain ft fw where ft: "filter_type input ctx = Inr ft"
    and pg: "find_page ctx \<lparr>by_type = ft, by_writer = fw\<rparr> l k (posts (em ctx)) = Inr page"
    by blast
  obtain t where "ft = Some t" and "type_id t = T"
    using filter_type_result [OF assms(1,2) ft] by blast
  then show ?thesis
    using find_page_members [OF pg] by (auto simp add: matches_def)
qed

lemma Posts_page_of_type:
  assumes "f_type input = Some T" and "T \<noteq> []" and "f_writer input = None"
    and "T \<in> type_id ` set (types (em ctx))"
  shows "Posts input (of_nat n) (of_nat m) ctx =
           Inr (slice (if n = 0 then None else Some n) m
                 (filter (\<lambda>p. type_id (post_type p) = T) (posts (em ctx))))"
proof -
  have "\<exists>t. findOneOrFail (\<lambda>t. Some (type_id t) = f_type input) (types (em ctx)) = Some t"
    using assms(1,4)
      findOneOrFail_exists [of _ "types (em ctx)" "\<lambda>t. Some (type_id t) = f_type input"]
    by auto
  then obtain t
    where t: "findOneOrFail (\<lambda>t. Some (type_id t) = f_type input) (types (em ctx)) = Some t"
    by blast
  from findOneOrFail_Some [OF t] assms(1) have "type_id t = T" by simp
  then have m: "matches \<lparr>by_type = Some t, by_writer = None\<rparr> = (\<lambda>p. type_id (post_type p) = T)"
    by (simp add: fun_eq_iff matches_def)
  have ft: "filter_type input ctx = Inr (Some t)"
    using t assms(1,2) by (simp add: filter_type_def truthy_def)
  have fw: "filter_writer input ctx = Inr None"
    using assms(3) by (simp add: filter_writer_def truthy_def)
  show ?thesis
    by (simp add: Posts_def ft fw find_page_def m bounds_of_nat)
qed

text \<open>The lookups in the store of the examples.\<close>

lemma em_examples:
  "em ctx_alice = store0" "em ctx_bob = store0" "em ctx_carol = store0"
  "em ctx_unique = store0" "em ctx_kept = store0"
  by (simp_all add: ctx_alice_def ctx_bob_def ctx_carol_def ctx_unique_def ctx_kept_def)

lemma req_user_examples:
  "req_user ctx_alice = ''alice''" "req_user ctx_bob = ''bob''" "req_user ctx_carol = ''carol''"
  "req_user ctx_unique = ''alice''" "req_user ctx_kept = ''alice''"
  by (simp_all add: ctx_alice_def ctx_bob_def ctx_carol_def ctx_unique_def ctx_kept_def)

lemma find_alice:
  "findOneOrFail (\<lambda>u. user_id u = ''alice'') (users store0) = Some alice"
  by (simp add: findOneOrFail_def store0_def alice_def bob_def)

lemma find_bob:
  "findOneOrFail (\<lambda>u. user_id u = ''bob'') (users store0) = Some bob"
  by (simp add: findOneOrFail_def store0_def alice_def bob_def)

lemma find_carol:
  "findOneOrFail (\<lambda>u. user_id u = ''carol'') (users store0) = None"
  by (simp add: findOneOrFail_def store0_def alice_def bob_def)

lemma find_draft1:
  "findOneOrFail (\<lambda>d. draft_id d = ''d1'') (drafts store0) = Some draft1"
  by (simp add: findOneOrFail_def store0_def draft1_def draft2_def)

lemma find_draft2:
  "findOneOrFail (\<lambda>d. draft_id d = ''d2'') (drafts store0) = Some draft2"
  by (simp add: findOneOrFail_def store0_def draft1_def draft2_def)

lemma find_post1:
  "findOneOrFail (\<lambda>p. post_id p = ''p1'') (posts store0) = Some post1"
  by (simp add: findOneOrFail_def store0_def post1_def post2_def post3_def)

lemma find_post3:
  "findOneOrFail (\<lambda>p. post_id p = ''p3'') (posts store0) = Some post3"
  by (simp add: findOneOrFail_def store0_def post1_def post2_def post3_def)

section \<open>Authentication comes first\<close>

text \<open>
  C9. When the identifier in the request context names no User, each of the three mutations
  throws AuthenticationError and leaves the store as it was, whatever its other arguments
  and whatever Drafts and Posts the store holds: no other lookup, no ownership check and no
  write has been made.
\<close>

theorem unauthenticated_mutation_rejected:
  assumes "findOneOrFail (\<lambda>u. user_id u = req_user ctx) (users (em ctx)) = None"
  shows "createPost d slug ctx = (Inl AuthenticationError, em ctx)
       \<and> updatePost i input ctx = (Inl AuthenticationError, em ctx)
       \<and> deletePost i ctx = (Inl AuthenticationError, em ctx)"
  using assms by (simp add: createPost_def updatePost_def deletePost_def)

theorem unauthenticated_mutation_rejected_witness:
  "findOneOrFail (\<lambda>u. user_id u = req_user ctx_carol) (users (em ctx_carol)) = None
   \<and> createPost ''d1'' ''hello'' ctx_carol = (Inl AuthenticationError, store0)
   \<and> updatePost ''p1'' \<lparr>in_title = ''T'', in_slug = ''t'', in_body = None, in_type = ''news''\<rparr>
        ctx_carol = (Inl AuthenticationError, store0)
   \<and> deletePost ''p1'' ctx_carol = (Inl AuthenticationError, store0)"
proof -
  have h: "findOneOrFail (\<lambda>u. user_id u = req_user ctx_carol) (users (em ctx_carol)) = None"
    by (simp add: em_examples req_user_examples find_carol)
  show ?thesis
    using h
      unauthenticated_mutation_rejected [OF h, of "''d1''" "''hello''" "''p1''"
        "\<lparr>in_title = ''T'', in_slug = ''t'', in_body = None, in_type = ''news''\<rparr>"]
    by (simp add: em_examples)
qed

section \<open>The ownership check\<close>

text \<open>
  C1, as the code has it. The check \<^verbatim>\<open>draft.writer !== user\<close> (and \<^verbatim>\<open>user !== post.writer\<close>)
  compares two in-memory objects by reference. Once the acting user and the target have been
  found, createPost, updatePost and deletePost are forbidden exactly when the writer of the
  target is another object than the one the User repository returned for the acting user.
  Where the data-access layer hands out one object per row for these two, that is exactly
  when the identifier of the writer differs from the identifier of the acting user.
\<close>

theorem ownership_check_by_object:
  assumes "findOneOrFail (\<lambda>u. user_id u = req_user ctx) (users (em ctx)) = Some user"
  shows "(findOneOrFail (\<lambda>d. draft_id d = i) (drafts (em ctx)) = Some draft \<longrightarrow>
            (fst (createPost i slug ctx) = Inl ForbiddenError \<longleftrightarrow> draft_writer draft \<noteq> user)
          \<and> (one_object_per_row (draft_writer draft) user \<longrightarrow>
               (fst (createPost i slug ctx) = Inl ForbiddenError \<longleftrightarrow>
                  user_id (draft_writer draft) \<noteq> req_user ctx)))
       \<and> (findOneOrFail (\<lambda>p. post_id p = j) (posts (em ctx)) = Some p \<longrightarrow>
            (fst (updatePost j input ctx) = Inl ForbiddenError \<longleftrightarrow> post_writer p \<noteq> user)
          \<and> (fst (deletePost j ctx) = Inl ForbiddenError \<longleftrightarrow> post_writer p \<noteq> user)
          \<and> (one_object_per_row (post_writer p) user \<longrightarrow>
               (fst (updatePost j input ctx) = Inl ForbiddenError \<longleftrightarrow>
                  user_id (post_writer p) \<noteq> req_user ctx)
             \<and> (fst (deletePost j ctx) = Inl ForbiddenError \<longleftrightarrow>
                  user_id (post_writer p) \<noteq> req_user ctx)))"
proof -
  have u: "user_id user = req_user ctx"
    using findOneOrFail_Some [OF assms] by simp
  show ?thesis
    using assms u
    by (auto simp add: createPost_def updatePost_def deletePost_def flush_def Let_def
        one_object_per_row_def)
qed

text \<open>
  Bob acts on Alice's Draft \<open>d1\<close> and on her Post \<open>p1\<close>: the objects differ, and so do the
  identifiers. Alice acts on them herself: one object, one identifier, and nothing is
  forbidden.
\<close>

theorem ownership_check_by_object_witness:
  "findOneOrFail (\<lambda>u. user_id u = req_user ctx_bob) (users (em ctx_bob)) = Some bob
   \<and> findOneOrFail (\<lambda>d. draft_id d = ''d1'') (drafts (em ctx_bob)) = Some draft1
   \<and> findOneOrFail (\<lambda>p. post_id p = ''p1'') (posts (em ctx_bob)) = Some post1
   \<and> draft_writer draft1 \<noteq> bob \<and> post_writer post1 \<noteq> bob
   \<and> user_id (draft_writer draft1) \<noteq> req_user ctx_bob
   \<and> fst (createPost ''d1'' ''hello'' ctx_bob) = Inl ForbiddenError
   \<and> fst (updatePost ''p1''
        \<lparr>in_title = ''T'', in_slug = ''t'', in_body = None, in_type = ''news''\<rparr> ctx_bob)
      = Inl ForbiddenError
   \<and> fst (deletePost ''p1'' ctx_bob) = Inl ForbiddenError
   \<and> findOneOrFail (\<lambda>u. user_id u = req_user ctx_alice) (users (em ctx_alice)) = Some alice
   \<and> draft_writer draft1 = alice \<and> post_writer post1 = alice
   \<and> user_id (draft_writer draft1) = req_user ctx_alice
   \<and> fst (createPost ''d1'' ''hello'' ctx_alice) \<noteq> Inl ForbiddenError
   \<and> fst (updatePost ''p1''
        \<lparr>in_title = ''T'', in_slug = ''t'', in_body = None, in_type = ''news''\<rparr> ctx_alice)
      \<noteq> Inl ForbiddenError
   \<and> fst (deletePost ''p1'' ctx_alice) \<noteq> Inl ForbiddenError"
proof -
  have hu: "findOneOrFail (\<lambda>u. user_id u = req_user ctx_bob) (users (em ctx_bob)) = Some bob"
    by (simp add: em_examples req_user_examples find_bob)
  have hd: "findOneOrFail (\<lambda>d. draft_id d = ''d1'') (drafts (em ctx_bob)) = Some draft1"
    by (simp add: em_examples find_draft1)
  have hp: "findOneOrFail (\<lambda>p. post_id p = ''p1'') (posts (em ctx_bob)) = Some post1"
    by (simp add: em_examples find_post1)
  have ne: "draft_writer draft1 \<noteq> bob \<and> post_writer post1 \<noteq> bob
      \<and> user_id (draft_writer draft1) \<noteq> req_user ctx_bob"
    by (simp add: draft1_def post1_def alice_def bob_def req_user_examples)
  have o: "one_object_per_row (draft_writer draft1) bob
      \<and> one_object_per_row (post_writer post1) bob"
    by (simp add: one_object_per_row_def draft1_def post1_def alice_def bob_def)
  have bob_part: "fst (createPost ''d1'' ''hello'' ctx_bob) = Inl ForbiddenError
   \<and> fst (updatePost ''p1''
        \<lparr>in_title = ''T'', in_slug = ''t'', in_body = None, in_type = ''news''\<rparr> ctx_bob)
      = Inl ForbiddenError
   \<and> fst (deletePost ''p1'' ctx_bob) = Inl ForbiddenError"
    using hd hp ne o
      ownership_check_by_object [OF hu, of "''d1''" draft1 "''hello''" "''p1''" post1
        "\<lparr>in_title = ''T'', in_slug = ''t'', in_body = None, in_type = ''news''\<rparr>"]
    by blast
  have au: "findOneOrFail (\<lambda>u. user_id u = req_user ctx_alice) (users (em ctx_alice)) = Some alice"
    by (simp add: em_examples req_user_examples find_alice)
  have ad: "findOneOrFail (\<lambda>d. draft_id d = ''d1'') (drafts (em ctx_alice)) = Some draft1"
    by (simp add: em_examples find_draft1)
  have ap: "findOneOrFail (\<lambda>p. post_id p = ''p1'') (posts (em ctx_alice)) = Some post1"
    by (simp add: em_examples find_post1)
  have eq: "draft_writer draft1 = alice \<and> post_writer post1 = alice
      \<and> user_id (draft_writer draft1) = req_user ctx_alice"
    by (simp add: draft1_def post1_def alice_def req_user_examples)
  have ao: "one_object_per_row (draft_writer draft1) alice
      \<and> one_object_per_row (post_writer post1) alice"
    using eq by (simp add: one_object_per_row_def)
  have alice_part: "fst (createPost ''d1'' ''hello'' ctx_alice) \<noteq> Inl ForbiddenError
   \<and> fst (updatePost ''p1''
        \<lparr>in_title = ''T'', in_slug = ''t'', in_body = None, in_type = ''news''\<rparr> ctx_alice)
      \<noteq> Inl ForbiddenError
   \<and> fst (deletePost ''p1'' ctx_alice) \<noteq> Inl ForbiddenError"
    using ad ap eq ao
      ownership_check_by_object [OF au, of "''d1''" draft1 "''hello''" "''p1''" post1
        "\<lparr>in_title = ''T'', in_slug = ''t'', in_body = None, in_type = ''news''\<rparr>"]
    by blast
  show ?thesis
    using hu hd hp ne bob_part au eq alice_part by blast
qed

text \<open>
  C1, as the spec states it, fails. Alice acts on the Draft \<open>d2\<close> and on the Post \<open>p3\<close>,
  whose writer is a second object for her own row: the identifiers agree, and all three
  mutations are forbidden.
\<close>

theorem ownership_by_identifier_counterexample:
  "user_id (draft_writer draft2) = req_user ctx_alice
   \<and> createPost ''d2'' ''again'' ctx_alice = (Inl ForbiddenError, store0)
   \<and> user_id (post_writer post3) = req_user ctx_alice
   \<and> updatePost ''p3'' \<lparr>in_title = ''T'', in_slug = ''t'', in_body = None, in_type = ''news''\<rparr>
        ctx_alice = (Inl ForbiddenError, store0)
   \<and> deletePost ''p3'' ctx_alice = (Inl ForbiddenError, store0)"
proof -
  have w: "draft_writer draft2 \<noteq> alice \<and> alice \<noteq> post_writer post3"
    by (simp add: draft2_def post3_def alice_def alice_again_def)
  have i: "user_id (draft_writer draft2) = req_user ctx_alice
      \<and> user_id (post_writer post3) = req_user ctx_alice"
    by (simp add: draft2_def post3_def alice_again_def req_user_examples)
  show ?thesis
    using w i
    by (simp add: createPost_def updatePost_def deletePost_def em_examples req_user_examples
        find_alice find_draft2 find_post3)
qed

text \<open>
  C4. A mutation tried by an authenticated user who is not the writer of its target throws
  ForbiddenError and leaves the store as it was: createPost keeps the Draft and adds no Post,
  updatePost and deletePost keep the Post. A user whose identifier differs from the
  writer's is never the writer object.
\<close>

theorem non_writer_forbidden:
  assumes "findOneOrFail (\<lambda>u. user_id u = req_user ctx) (users (em ctx)) = Some user"
  shows "(findOneOrFail (\<lambda>d. draft_id d = i) (drafts (em ctx)) = Some draft
            \<and> (draft_writer draft \<noteq> user \<or> user_id (draft_writer draft) \<noteq> req_user ctx) \<longrightarrow>
            createPost i slug ctx = (Inl ForbiddenError, em ctx))
       \<and> (findOneOrFail (\<lambda>p. post_id p = j) (posts (em ctx)) = Some p
            \<and> (post_writer p \<noteq> user \<or> user_id (post_writer p) \<noteq> req_user ctx) \<longrightarrow>
            updatePost j input ctx = (Inl ForbiddenError, em ctx)
          \<and> deletePost j ctx = (Inl ForbiddenError, em ctx))"
proof -
  have u: "user_id user = req_user ctx"
    using findOneOrFail_Some [OF assms] by simp
  show ?thesis
    using assms u by (auto simp add: createPost_def updatePost_def deletePost_def)
qed

theorem non_writer_forbidden_witness:
  "findOneOrFail (\<lambda>u. user_id u = req_user ctx_bob) (users (em ctx_bob)) = Some bob
   \<and> findOneOrFail (\<lambda>d. draft_id d = ''d1'') (drafts (em ctx_bob)) = Some draft1
   \<and> findOneOrFail (\<lambda>p. post_id p = ''p1'') (posts (em ctx_bob)) = Some post1
   \<and> user_id (draft_writer draft1) \<noteq> req_user ctx_bob
   \<and> user_id (post_writer post1) \<noteq> req_user ctx_bob
   \<and> createPost ''d1'' ''hello'' ctx_bob = (Inl ForbiddenError, store0)
   \<and> updatePost ''p1'' \<lparr>in_title = ''T'', in_slug = ''t'', in_body = None, in_type = ''news''\<rparr>
        ctx_bob = (Inl ForbiddenError, store0)
   \<and> deletePost ''p1'' ctx_bob = (Inl ForbiddenError, store0)"
proof -
  have hu: "findOneOrFail (\<lambda>u. user_id u = req_user ctx_bob) (users (em ctx_bob)) = Some bob"
    by (simp add: em_examples req_user_examples find_bob)
  have hd: "findOneOrFail (\<lambda>d. draft_id d = ''d1'') (drafts (em ctx_bob)) = Some draft1"
    by (simp add: em_examples find_draft1)
  have hp: "findOneOrFail (\<lambda>p. post_id p = ''p1'') (posts (em ctx_bob)) = Some post1"
    by (simp add: em_examples find_post1)
  have ne: "user_id (draft_writer draft1) \<noteq> req_user ctx_bob
      \<and> user_id (post_writer post1) \<noteq> req_user ctx_bob"
    by (simp add: draft1_def post1_def alice_def req_user_examples)
  show ?thesis
    using hu hd hp ne
      non_writer_forbidden [OF hu, of "''d1''" draft1 "''hello''" "''p1''" post1
        "\<lparr>in_title = ''T'', in_slug = ''t'', in_body = None, in_type = ''news''\<rparr>"]
    by (simp add: em_examples)
qed

section \<open>Failed lookups\<close>

text \<open>
  C5, as the code has it. A lookup that is made and finds nothing is turned into an error
  of the resolver where it is made. Posts with a non-empty Type identifier, or a non-empty
  writer identifier, that names no row throws UserInputError and returns no list. An empty
  Type identifier, or an empty writer identifier, is no lookup at all: Posts answers as if
  the field had been left out. Each mutation looks the acting user up first, and when that
  lookup fails it throws AuthenticationError; once the acting user has been found,
  createPost with an unknown Draft identifier and updatePost and deletePost with an unknown
  Post identifier throw UserInputError. Every one of these errors leaves the store as it
  was.
\<close>

theorem failed_lookup_is_input_error:
  "(f_type input = Some T \<and> T \<noteq> [] \<and> T \<notin> type_id ` set (types (em ctx)) \<longrightarrow>
      Posts input l k ctx = Inl UserInputError)
 \<and> (f_writer input = Some W \<and> W \<noteq> [] \<and> W \<notin> user_id ` set (users (em ctx)) \<longrightarrow>
      Posts input l k ctx = Inl UserInputError)
 \<and> (f_type input = Some [] \<longrightarrow>
      Posts input l k ctx = Posts (input\<lparr>f_type := None\<rparr>) l k ctx)
 \<and> (f_writer input = Some [] \<longrightarrow>
      Posts input l k ctx = Posts (input\<lparr>f_writer := None\<rparr>) l k ctx)
 \<and> (findOneOrFail (\<lambda>u. user_id u = req_user ctx) (users (em ctx)) = None \<longrightarrow>
      createPost i slug ctx = (Inl AuthenticationError, em ctx)
    \<and> updatePost j inp ctx = (Inl AuthenticationError, em ctx)
    \<and> deletePost j ctx = (Inl AuthenticationError, em ctx))
 \<and> (findOneOrFail (\<lambda>u. user_id u = req_user ctx) (users (em ctx)) = Some user \<longrightarrow>
      (i \<notin> draft_id ` set (drafts (em ctx)) \<longrightarrow>
         createPost i slug ctx = (Inl UserInputError, em ctx))
    \<and> (j \<notin> post_id ` set (posts (em ctx)) \<longrightarrow>
         updatePost j inp ctx = (Inl UserInputError, em ctx)
       \<and> deletePost j ctx = (Inl UserInputError, em ctx)))"
proof -
  have t: "Posts input l k ctx = Inl UserInputError"
    if "f_type input = Some T" "T \<noteq> []" "T \<notin> type_id ` set (types (em ctx))"
  proof -
    have "findOneOrFail (\<lambda>t. Some (type_id t) = f_type input) (types (em ctx)) = None"
      using that by (auto simp add: findOneOrFail_None)
    then show ?thesis
      using that by (simp add: Posts_def filter_type_def truthy_def)
  qed
  have w: "Posts input l k ctx = Inl UserInputError"
    if "f_writer input = Some W" "W \<noteq> []" "W \<notin> user_id ` set (users (em ctx))"
  proof -
    have "findOneOrFail (\<lambda>u. Some (user_id u) = f_writer input) (users (em ctx)) = None"
      using that by (auto simp add: findOneOrFail_None)
    then have "filter_writer input ctx = Inl UserInputError"
      using that by (simp add: filter_writer_def truthy_def)
    then show ?thesis
      using filter_type_error [of input ctx] by (simp add: Posts_def split: sum.split)
  qed
  have a: "createPost i slug ctx = (Inl AuthenticationError, em ctx)
    \<and> updatePost j inp ctx = (Inl AuthenticationError, em ctx)
    \<and> deletePost j ctx = (Inl AuthenticationError, em ctx)"
    if "findOneOrFail (\<lambda>u. user_id u = req_user ctx) (users (em ctx)) = None"
    using that by (simp add: createPost_def updatePost_def deletePost_def)
  have c: "createPost i slug ctx = (Inl UserInputError, em ctx)"
    if "findOneOrFail (\<lambda>u. user_id u = req_user ctx) (users (em ctx)) = Some user"
      "i \<notin> draft_id ` set (drafts (em ctx))"
  proof -
    have "findOneOrFail (\<lambda>d. draft_id d = i) (drafts (em ctx)) = None"
      using that(2) by (auto simp add: findOneOrFail_None)
    then show ?thesis
      using that(1) by (simp add: createPost_def)
  qed
  have u: "updatePost j inp ctx = (Inl UserInputError, em ctx)
         \<and> deletePost j ctx = (Inl UserInputError, em ctx)"
    if "findOneOrFail (\<lambda>u. user_id u = req_user ctx) (users (em ctx)) = Some user"
      "j \<notin> post_id ` set (posts (em ctx))"
  proof -
    have "findOneOrFail (\<lambda>p. post_id p = j) (posts (em ctx)) = None"
      using that(2) by (auto simp add: findOneOrFail_None)
    then show ?thesis
      using that(1) by (simp add: updatePost_def deletePost_def)
  qed
  show ?thesis
    using t w a c u Posts_empty_type [of input l k ctx] Posts_empty_writer [of input l k ctx]
    by blast
qed

theorem failed_lookup_is_input_error_witness:
  "''sport'' \<notin> type_id ` set (types (em ctx_alice))
   \<and> ''carol'' \<notin> user_id ` set (users (em ctx_alice))
   \<and> ''d9'' \<notin> draft_id ` set (drafts (em ctx_alice))
   \<and> ''p9'' \<notin> post_id ` set (posts (em ctx_alice))
   \<and> findOneOrFail (\<lambda>u. user_id u = req_user ctx_alice) (users (em ctx_alice)) = Some alice
   \<and> Posts \<lparr>f_type = Some ''sport'', f_writer = None\<rparr> 10 0 ctx_alice = Inl UserInputError
   \<and> Posts \<lparr>f_type = None, f_writer = Some ''carol''\<rparr> 10 0 ctx_alice = Inl UserInputError
   \<and> Posts \<lparr>f_type = Some [], f_writer = Some ''carol''\<rparr> 10 0 ctx_alice =
       Posts \<lparr>f_type = None, f_writer = Some ''carol''\<rparr> 10 0 ctx_alice
   \<and> Posts \<lparr>f_type = Some ''sport'', f_writer = Some []\<rparr> 10 0 ctx_alice =
       Posts \<lparr>f_type = Some ''sport'', f_writer = None\<rparr> 10 0 ctx_alice
   \<and> createPost ''d9'' ''hello'' ctx_alice = (Inl UserInputError, store0)
   \<and> updatePost ''p9'' \<lparr>in_title = ''T'', in_slug = ''t'', in_body = None, in_type = ''news''\<rparr>
        ctx_alice = (Inl UserInputError, store0)
   \<and> deletePost ''p9'' ctx_alice = (Inl UserInputError, store0)
   \<and> findOneOrFail (\<lambda>u. user_id u = req_user ctx_carol) (users (em ctx_carol)) = None
   \<and> createPost ''d9'' ''hello'' ctx_carol = (Inl AuthenticationError, store0)"
proof -
  have ht: "''sport'' \<notin> type_id ` set (types (em ctx_alice))"
    by (simp add: em_examples store0_def news_def essay_def)
  have hw: "''carol'' \<notin> user_id ` set (users (em ctx_alice))"
    by (simp add: em_examples store0_def alice_def bob_def)
  have hd: "''d9'' \<notin> draft_id ` set (drafts (em ctx_alice))"
    by (simp add: em_examples store0_def draft1_def draft2_def)
  have hp: "''p9'' \<notin> post_id ` set (posts (em ctx_alice))"
    by (simp add: em_examples store0_def post1_def post2_def post3_def)
  have hu: "findOneOrFail (\<lambda>u. user_id u = req_user ctx_alice) (users (em ctx_alice)) = Some alice"
    by (simp add: em_examples req_user_examples find_alice)
  have hn: "findOneOrFail (\<lambda>u. user_id u = req_user ctx_carol) (users (em ctx_carol)) = None"
    by (simp add: em_examples req_user_examples find_carol)
  have a: "Posts \<lparr>f_type = Some ''sport'', f_writer = None\<rparr> 10 0 ctx_alice = Inl UserInputError"
    using ht
      failed_lookup_is_input_error [where input = "\<lparr>f_type = Some ''sport'', f_writer = None\<rparr>"
        and T = "''sport''" and ctx = ctx_alice and l = 10 and k = 0]
    by simp
  have b: "Posts \<lparr>f_type = None, f_writer = Some ''carol''\<rparr> 10 0 ctx_alice = Inl UserInputError"
    using hw
      failed_lookup_is_input_error [where input = "\<lparr>f_type = None, f_writer = Some ''carol''\<rparr>"
        and W = "''carol''" and ctx = ctx_alice and l = 10 and k = 0]
    by simp
  have e1: "Posts \<lparr>f_type = Some [], f_writer = Some ''carol''\<rparr> 10 0 ctx_alice =
       Posts \<lparr>f_type = None, f_writer = Some ''carol''\<rparr> 10 0 ctx_alice"
    using failed_lookup_is_input_error
      [where input = "\<lparr>f_type = Some [], f_writer = Some ''carol''\<rparr>"
        and ctx = ctx_alice and l = 10 and k = 0]
    by simp
  have e2: "Posts \<lparr>f_type = Some ''sport'', f_writer = Some []\<rparr> 10 0 ctx_alice =
       Posts \<lparr>f_type = Some ''sport'', f_writer = None\<rparr> 10 0 ctx_alice"
    using failed_lookup_is_input_error
      [where input = "\<lparr>f_type = Some ''sport'', f_writer = Some []\<rparr>"
        and ctx = ctx_alice and l = 10 and k = 0]
    by simp
  have c: "createPost ''d9'' ''hello'' ctx_alice = (Inl UserInputError, store0)
     \<and> updatePost ''p9'' \<lparr>in_title = ''T'', in_slug = ''t'', in_body = None, in_type = ''news''\<rparr>
          ctx_alice = (Inl UserInputError, store0)
     \<and> deletePost ''p9'' ctx_alice = (Inl UserInputError, store0)"
    using hu hd hp
      failed_lookup_is_input_error [where ctx = ctx_alice and user = alice and i = "''d9''"
        and slug = "''hello''" and j = "''p9''"
        and inp = "\<lparr>in_title = ''T'', in_slug = ''t'', in_body = None, in_type = ''news''\<rparr>"]
    by (simp add: em_examples)
  have d: "createPost ''d9'' ''hello'' ctx_carol = (Inl AuthenticationError, store0)"
    using hn
      failed_lookup_is_input_error [where ctx = ctx_carol and i = "''d9''"
        and slug = "''hello''"]
    by (simp add: em_examples)
  show ?thesis
    using ht hw hd hp hu hn a b e1 e2 c d by blast
qed

text \<open>
  C5, as the spec states it, fails twice. The empty string is a Type identifier, and a
  writer identifier, that names no row, and Posts skips its lookup and returns the unfiltered
  page. And createPost with an unknown Draft identifier throws AuthenticationError, not
  UserInputError, when the lookup of the acting user by its identifier finds nothing.
\<close>

theorem failed_lookup_counterexample:
  "[] \<notin> type_id ` set (types (em ctx_alice))
   \<and> Posts \<lparr>f_type = Some [], f_writer = None\<rparr> 10 0 ctx_alice = Inr [post1, post2, post3]
   \<and> [] \<notin> user_id ` set (users (em ctx_alice))
   \<and> Posts \<lparr>f_type = None, f_writer = Some []\<rparr> 10 0 ctx_alice = Inr [post1, post2, post3]
   \<and> ''d9'' \<notin> draft_id ` set (drafts (em ctx_carol))
   \<and> createPost ''d9'' ''hello'' ctx_carol = (Inl AuthenticationError, store0)"
proof -
  have a: "[] \<notin> type_id ` set (types (em ctx_alice))"
    by (simp add: em_examples store0_def news_def essay_def)
  have bd: "bounds ctx_alice 10 0 n = Inr (Some 10, 0)" for n
    using bounds_of_nat [of ctx_alice 10 0 n] by simp
  have b: "Posts \<lparr>f_type = Some [], f_writer = None\<rparr> 10 0 ctx_alice = Inr [post1, post2, post3]"
    by (simp add: Posts_def filter_type_def filter_writer_def truthy_def find_page_def bd
        slice_def matches_def em_examples store0_def)
  have a': "[] \<notin> user_id ` set (users (em ctx_alice))"
    by (simp add: em_examples store0_def alice_def bob_def)
  have b': "Posts \<lparr>f_type = None, f_writer = Some []\<rparr> 10 0 ctx_alice = Inr [post1, post2, post3]"
    by (simp add: Posts_def filter_type_def filter_writer_def truthy_def find_page_def bd
        slice_def matches_def em_examples store0_def)
  have c: "''d9'' \<notin> draft_id ` set (drafts (em ctx_carol))"
    by (simp add: em_examples store0_def draft1_def draft2_def)
  have d: "createPost ''d9'' ''hello'' ctx_carol = (Inl AuthenticationError, store0)"
    by (simp add: createPost_def em_examples req_user_examples find_carol)
  show ?thesis
    using a b a' b' c d by blast
qed

section \<open>Promoting a Draft\<close>

text \<open>
  C3, as the code has it. Let the acting user be found and let the Draft with the given
  identifier be found and be owned by the acting user: its writer has the identifier of the
  request. Let the data-access layer have one object for that row, so that the writer is
  the very object found for the acting user, and let the database accept the new Post and
  the removal of the Draft. Then createPost returns the Post that it has built from the
  Draft and given the slug of the argument; that Post is in the store; and no Draft with the
  given identifier is left. Title, body, type and writer of that Post are those of the
  Draft, as the constructor copies them.
\<close>

theorem createPost_promotes_draft:
  assumes "findOneOrFail (\<lambda>u. user_id u = req_user ctx) (users (em ctx)) = Some user"
    and "findOneOrFail (\<lambda>d. draft_id d = i) (drafts (em ctx)) = Some draft"
    and "user_id (draft_writer draft) = req_user ctx"
    and "one_object_per_row (draft_writer draft) user"
    and "p = (new_Post (fresh_id ctx) draft)\<lparr>post_slug := slug\<rparr>"
    and "accepts ctx (persist_Post p (em ctx))"
    and "accepts ctx (remove_Draft draft (persist_Post p (em ctx)))"
  shows "fst (createPost i slug ctx) = Inr p
       \<and> p \<in> set (posts (snd (createPost i slug ctx)))
       \<and> post_title p = draft_title draft \<and> post_body p = draft_body draft
       \<and> post_type p = draft_type draft \<and> post_writer p = draft_writer draft
       \<and> post_slug p = slug
       \<and> draft \<notin> set (drafts (snd (createPost i slug ctx)))
       \<and> i \<notin> draft_id ` set (drafts (snd (createPost i slug ctx)))"
proof -
  have d: "draft_id draft = i"
    using findOneOrFail_Some [OF assms(2)] by simp
  have u: "user_id user = req_user ctx"
    using findOneOrFail_Some [OF assms(1)] by simp
  have w: "draft_writer draft = user"
    using assms(3,4) u by (simp add: one_object_per_row_def)
  have c: "createPost i slug ctx = (Inr p, remove_Draft draft (persist_Post p (em ctx)))"
    using assms(1,2,5,6,7) w by (simp add: createPost_def flush_def Let_def)
  have f: "post_title p = draft_title draft \<and> post_body p = draft_body draft
           \<and> post_type p = draft_type draft \<and> post_writer p = draft_writer draft
           \<and> post_slug p = slug"
    using assms(5) by (simp add: new_Post_def)
  have m: "p \<in> set (posts (remove_Draft draft (persist_Post p (em ctx))))"
    by (simp add: remove_Draft_def persist_Post_def)
  have g: "draft \<notin> set (drafts (remove_Draft draft (persist_Post p (em ctx))))
         \<and> i \<notin> draft_id ` set (drafts (remove_Draft draft (persist_Post p (em ctx))))"
    using d by (auto simp add: remove_Draft_def persist_Post_def)
  show ?thesis
    using f m g by (simp add: c)
qed

text \<open>Alice promotes her Draft \<open>d1\<close> under the slug \<open>hello\<close>.\<close>

theorem createPost_promotes_draft_witness:
  "fst (createPost ''d1'' ''hello'' ctx_alice) =
     Inr \<lparr>post_id = ''p4'', post_title = ''Hello'', post_slug = ''hello'',
           post_body = Some ''text'', post_type = news, post_writer = alice\<rparr>
   \<and> \<lparr>post_id = ''p4'', post_title = ''Hello'', post_slug = ''hello'',
        post_body = Some ''text'', post_type = news, post_writer = alice\<rparr>
       \<in> set (posts (snd (createPost ''d1'' ''hello'' ctx_alice)))
   \<and> draft1 \<notin> set (drafts (snd (createPost ''d1'' ''hello'' ctx_alice)))
   \<and> ''d1'' \<notin> draft_id ` set (drafts (snd (createPost ''d1'' ''hello'' ctx_alice)))"
proof -
  have hu: "findOneOrFail (\<lambda>u. user_id u = req_user ctx_alice) (users (em ctx_alice)) = Some alice"
    by (simp add: em_examples req_user_examples find_alice)
  have hd: "findOneOrFail (\<lambda>d. draft_id d = ''d1'') (drafts (em ctx_alice)) = Some draft1"
    by (simp add: em_examples find_draft1)
  have hi: "user_id (draft_writer draft1) = req_user ctx_alice"
    by (simp add: draft1_def alice_def req_user_examples)
  have ho: "one_object_per_row (draft_writer draft1) alice"
    by (simp add: one_object_per_row_def draft1_def)
  have hp: "\<lparr>post_id = ''p4'', post_title = ''Hello'', post_slug = ''hello'',
             post_body = Some ''text'', post_type = news, post_writer = alice\<rparr>
          = (new_Post (fresh_id ctx_alice) draft1)\<lparr>post_slug := ''hello''\<rparr>"
    by (simp add: new_Post_def ctx_alice_def draft1_def)
  have h1: "accepts ctx_alice (persist_Post
      \<lparr>post_id = ''p4'', post_title = ''Hello'', post_slug = ''hello'',
        post_body = Some ''text'', post_type = news, post_writer = alice\<rparr> (em ctx_alice))"
    by (simp add: ctx_alice_def accepts_all_def)
  have h2: "accepts ctx_alice (remove_Draft draft1 (persist_Post
      \<lparr>post_id = ''p4'', post_title = ''Hello'', post_slug = ''hello'',
        post_body = Some ''text'', post_type = news, post_writer = alice\<rparr> (em ctx_alice)))"
    by (simp add: ctx_alice_def accepts_all_def)
  show ?thesis
    using createPost_promotes_draft [OF hu hd hi ho hp h1 h2] by blast
qed

text \<open>
  C3, as the spec states it, fails in two ways. Alice owns the Draft \<open>d1\<close>, the slug
  \<open>first\<close> is taken by the Post \<open>p1\<close>, the database of \<open>ctx_unique\<close> wants the slugs
  distinct, and createPost throws UserInputError and creates nothing. And Alice owns the
  Draft \<open>d2\<close> by its writer's identifier, the database of \<open>ctx_alice\<close> accepts every write,
  but the writer is a second object for her row, and createPost throws ForbiddenError.
\<close>

theorem createPost_by_owner_counterexample:
  "draft1 \<in> set (drafts (em ctx_unique)) \<and> draft_id draft1 = ''d1''
   \<and> alice \<in> set (users (em ctx_unique)) \<and> user_id alice = req_user ctx_unique
   \<and> draft_writer draft1 = alice
   \<and> createPost ''d1'' ''first'' ctx_unique = (Inl UserInputError, em ctx_unique)
   \<and> draft2 \<in> set (drafts (em ctx_alice)) \<and> draft_id draft2 = ''d2''
   \<and> user_id (draft_writer draft2) = req_user ctx_alice
   \<and> createPost ''d2'' ''again'' ctx_alice = (Inl ForbiddenError, em ctx_alice)"
proof -
  have a: "draft1 \<in> set (drafts (em ctx_unique)) \<and> draft_id draft1 = ''d1''
      \<and> alice \<in> set (users (em ctx_unique)) \<and> user_id alice = req_user ctx_unique
      \<and> draft_writer draft1 = alice"
    by (simp add: em_examples req_user_examples store0_def draft1_def alice_def)
  have w: "draft_writer draft1 = alice"
    using a by simp
  have r: "\<not> accepts ctx_unique
      (persist_Post ((new_Post (fresh_id ctx_unique) draft1)\<lparr>post_slug := ''first''\<rparr>) store0)"
    by (simp add: ctx_unique_def slugs_unique_def persist_Post_def store0_def post1_def)
  have c: "createPost ''d1'' ''first'' ctx_unique = (Inl UserInputError, em ctx_unique)"
    using w r
    by (simp add: createPost_def flush_def Let_def em_examples req_user_examples
        find_alice find_draft1)
  have b: "draft2 \<in> set (drafts (em ctx_alice)) \<and> draft_id draft2 = ''d2''
      \<and> user_id (draft_writer draft2) = req_user ctx_alice"
    by (simp add: em_examples req_user_examples store0_def draft2_def alice_again_def)
  have w2: "draft_writer draft2 \<noteq> alice"
    by (simp add: draft2_def alice_def alice_again_def)
  have d: "createPost ''d2'' ''again'' ctx_alice = (Inl ForbiddenError, em ctx_alice)"
    using w2
    by (simp add: createPost_def em_examples req_user_examples find_alice find_draft2)
  show ?thesis
    using a c b d by blast
qed

text \<open>
  C2. With the acting user found and the Draft found and written by that user: when the
  database rejects the new Post, createPost throws UserInputError and the store, the Draft
  with it, is as it was; when the database takes the Post and then rejects the removal of
  the Draft, createPost throws UserInputError all the same, and the store then holds the
  Post next to the Draft.
\<close>

theorem createPost_persistence_failures:
  assumes "findOneOrFail (\<lambda>u. user_id u = req_user ctx) (users (em ctx)) = Some user"
    and "findOneOrFail (\<lambda>d. draft_id d = i) (drafts (em ctx)) = Some draft"
    and "draft_writer draft = user"
    and "p = (new_Post (fresh_id ctx) draft)\<lparr>post_slug := slug\<rparr>"
  shows "(\<not> accepts ctx (persist_Post p (em ctx)) \<longrightarrow>
            createPost i slug ctx = (Inl UserInputError, em ctx)
          \<and> draft \<in> set (drafts (snd (createPost i slug ctx))))
       \<and> (accepts ctx (persist_Post p (em ctx))
            \<and> \<not> accepts ctx (remove_Draft draft (persist_Post p (em ctx))) \<longrightarrow>
            createPost i slug ctx = (Inl UserInputError, persist_Post p (em ctx)))"
proof -
  have d: "draft \<in> set (drafts (em ctx))"
    using findOneOrFail_Some [OF assms(2)] by simp
  show ?thesis
    using assms d by (simp add: createPost_def flush_def Let_def)
qed

text \<open>
  The database of \<open>ctx_unique\<close> rejects a second Post with the slug \<open>first\<close>; the one
  of \<open>ctx_kept\<close> takes the Post and keeps both Drafts.
\<close>

theorem createPost_persistence_failures_witness:
  "createPost ''d1'' ''first'' ctx_unique = (Inl UserInputError, store0)
   \<and> draft1 \<in> set (drafts (snd (createPost ''d1'' ''first'' ctx_unique)))
   \<and> createPost ''d1'' ''hello'' ctx_kept =
       (Inl UserInputError,
        persist_Post ((new_Post ''p4'' draft1)\<lparr>post_slug := ''hello''\<rparr>) store0)"
proof -
  have hu: "findOneOrFail (\<lambda>u. user_id u = req_user ctx_unique) (users (em ctx_unique)) = Some alice"
    by (simp add: em_examples req_user_examples find_alice)
  have hd: "findOneOrFail (\<lambda>d. draft_id d = ''d1'') (drafts (em ctx_unique)) = Some draft1"
    by (simp add: em_examples find_draft1)
  have ku: "findOneOrFail (\<lambda>u. user_id u = req_user ctx_kept) (users (em ctx_kept)) = Some alice"
    by (simp add: em_examples req_user_examples find_alice)
  have kd: "findOneOrFail (\<lambda>d. draft_id d = ''d1'') (drafts (em ctx_kept)) = Some draft1"
    by (simp add: em_examples find_draft1)
  have hw: "draft_writer draft1 = alice"
    by (simp add: draft1_def)
  have hp: "(new_Post ''p4'' draft1)\<lparr>post_slug := ''first''\<rparr>
          = (new_Post (fresh_id ctx_unique) draft1)\<lparr>post_slug := ''first''\<rparr>"
    by (simp add: ctx_unique_def)
  have kp: "(new_Post ''p4'' draft1)\<lparr>post_slug := ''hello''\<rparr>
          = (new_Post (fresh_id ctx_kept) draft1)\<lparr>post_slug := ''hello''\<rparr>"
    by (simp add: ctx_kept_def)
  have r1: "\<not> accepts ctx_unique
      (persist_Post ((new_Post ''p4'' draft1)\<lparr>post_slug := ''first''\<rparr>) (em ctx_unique))"
    by (simp add: ctx_unique_def slugs_unique_def persist_Post_def store0_def post1_def)
  have r2: "accepts ctx_kept
      (persist_Post ((new_Post ''p4'' draft1)\<lparr>post_slug := ''hello''\<rparr>) (em ctx_kept))
    \<and> \<not> accepts ctx_kept (remove_Draft draft1
      (persist_Post ((new_Post ''p4'' draft1)\<lparr>post_slug := ''hello''\<rparr>) (em ctx_kept)))"
    by (simp add: ctx_kept_def drafts_kept_def persist_Post_def remove_Draft_def store0_def
        draft1_def draft2_def)
  show ?thesis
    using r1 r2
      createPost_persistence_failures [OF hu hd hw hp]
      createPost_persistence_failures [OF ku kd hw kp]
    by (auto simp add: em_examples)
qed

section \<open>Updating a Post\<close>

text \<open>
  C7. A successful updatePost leaves the Users, the Types and the Drafts of the store as they
  were. Row by row, the Posts keep their identifier, their type and their writer; a row with
  another identifier than the target's is unchanged; the target's row has title, slug and
  body of the input. The Post returned is the Post that was found, with these three fields
  overwritten.
\<close>

theorem updatePost_frame:
  assumes "updatePost i input ctx = (Inr p, s)"
  shows "users s = users (em ctx) \<and> types s = types (em ctx) \<and> drafts s = drafts (em ctx)
       \<and> list_all2 (\<lambda>old new.
            post_id new = post_id old \<and> post_type new = post_type old
            \<and> post_writer new = post_writer old
            \<and> (if post_id old = i
               then post_title new = in_title input \<and> post_slug new = in_slug input
                    \<and> post_body new = in_body input
               else new = old))
          (posts (em ctx)) (posts s)
       \<and> (\<exists>p0 \<in> set (posts (em ctx)).
            p = p0\<lparr>post_title := in_title input, post_slug := in_slug input,
                    post_body := in_body input\<rparr>
            \<and> post_id p = i \<and> post_type p = post_type p0 \<and> post_writer p = post_writer p0)"
proof -
  have "\<exists>p0. findOneOrFail (\<lambda>p. post_id p = i) (posts (em ctx)) = Some p0
      \<and> p = p0\<lparr>post_title := in_title input, post_slug := in_slug input,
                    post_body := in_body input\<rparr>
      \<and> s = update_Post p (em ctx)"
    using assms
    by (auto simp add: updatePost_def flush_def Let_def split: option.splits if_splits)
  then obtain p0 where p0: "findOneOrFail (\<lambda>p. post_id p = i) (posts (em ctx)) = Some p0"
    and p: "p = p0\<lparr>post_title := in_title input, post_slug := in_slug input,
                    post_body := in_body input\<rparr>"
    and s: "s = update_Post p (em ctx)"
    by blast
  have i: "post_id p0 = i" and m: "p0 \<in> set (posts (em ctx))"
    using findOneOrFail_Some [OF p0] by simp_all
  have rows: "list_all2 (\<lambda>old new.
            post_id new = post_id old \<and> post_type new = post_type old
            \<and> post_writer new = post_writer old
            \<and> (if post_id old = i
               then post_title new = in_title input \<and> post_slug new = in_slug input
                    \<and> post_body new = in_body input
               else new = old))
          rows (map (write_Post p) rows)" for rows
    using p i by (induction rows) (simp_all add: write_Post_def)
  have frame: "users s = users (em ctx) \<and> types s = types (em ctx) \<and> drafts s = drafts (em ctx)"
    using s by (simp add: update_Post_def)
  have ps: "posts s = map (write_Post p) (posts (em ctx))"
    using s by (simp add: update_Post_def)
  have ret: "\<exists>p0 \<in> set (posts (em ctx)).
            p = p0\<lparr>post_title := in_title input, post_slug := in_slug input,
                    post_body := in_body input\<rparr>
            \<and> post_id p = i \<and> post_type p = post_type p0 \<and> post_writer p = post_writer p0"
    using p i m by auto
  show ?thesis
    using frame rows [of "posts (em ctx)"] ret unfolding ps by blast
qed

text \<open>Alice gives her Post \<open>p1\<close> a new title, slug and body.\<close>

theorem updatePost_frame_witness:
  "updatePost ''p1'' \<lparr>in_title = ''T'', in_slug = ''t'', in_body = None, in_type = ''essay''\<rparr>
     ctx_alice =
     (Inr (post1\<lparr>post_title := ''T'', post_slug := ''t'', post_body := None\<rparr>),
      store0\<lparr>posts := [post1\<lparr>post_title := ''T'', post_slug := ''t'', post_body := None\<rparr>,
                        post2, post3]\<rparr>)
   \<and> users (store0\<lparr>posts := [post1\<lparr>post_title := ''T'', post_slug := ''t'', post_body := None\<rparr>,
                        post2, post3]\<rparr>) = users (em ctx_alice)
   \<and> post_type (post1\<lparr>post_title := ''T'', post_slug := ''t'', post_body := None\<rparr>) = news
   \<and> post_writer (post1\<lparr>post_title := ''T'', post_slug := ''t'', post_body := None\<rparr>) = alice"
proof -
  have f: "flush ctx_alice s = Some s" for s
    by (simp add: flush_def ctx_alice_def accepts_all_def)
  have w: "alice = post_writer post1"
    by (simp add: post1_def)
  have r: "map (write_Post (post1\<lparr>post_title := ''T'', post_slug := ''t'', post_body := None\<rparr>))
             (posts store0)
         = [post1\<lparr>post_title := ''T'', post_slug := ''t'', post_body := None\<rparr>, post2, post3]"
    by (simp add: write_Post_def store0_def post1_def post2_def post3_def)
  have c: "updatePost ''p1''
      \<lparr>in_title = ''T'', in_slug = ''t'', in_body = None, in_type = ''essay''\<rparr> ctx_alice =
     (Inr (post1\<lparr>post_title := ''T'', post_slug := ''t'', post_body := None\<rparr>),
      store0\<lparr>posts := [post1\<lparr>post_title := ''T'', post_slug := ''t'', post_body := None\<rparr>,
                        post2, post3]\<rparr>)"
    using w
    by (simp add: updatePost_def Let_def em_examples req_user_examples find_alice find_post1
        f update_Post_def r)
  have t: "post_type (post1\<lparr>post_title := ''T'', post_slug := ''t'', post_body := None\<rparr>) = news
      \<and> post_writer (post1\<lparr>post_title := ''T'', post_slug := ''t'', post_body := None\<rparr>) = alice"
    by (simp add: post1_def)
  show ?thesis
    using c t updatePost_frame [OF c] by simp
qed

section \<open>The update ignores the type of its input\<close>

text \<open>
  C10. The field \<open>type\<close> of the input of updatePost is never read: two calls on the same
  context whose inputs differ only there return the same Post and leave the same store.
\<close>

theorem updatePost_ignores_type:
  "updatePost i (input\<lparr>in_type := t\<rparr>) ctx = updatePost i input ctx"
  by (simp add: updatePost_def Let_def split: option.split)

section \<open>Deleting a Post\<close>

text \<open>
  C8, as the code has it. deletePost never returns \<open>false\<close>: it throws or it returns
  \<open>true\<close>, and whenever it returns, no Post with the given identifier is left in the store
  and the query \<open>post\<close> for that identifier answers \<^verbatim>\<open>null\<close>. Let the acting user be found
  and let the Post with the given identifier be found and be written by the acting user: its
  writer has the identifier of the request. Let the data-access layer have one object for
  that row, and let the database accept the removal. Then deletePost returns \<open>true\<close> and
  leaves the store without that Post.
\<close>

theorem deletePost_removes_or_throws:
  "(deletePost i ctx = (Inr b, s) \<longrightarrow>
      b \<and> i \<notin> post_id ` set (posts s)
      \<and> post \<lparr>q_id = Given i, q_slug = qs, q_title = qt\<rparr> (ctx\<lparr>em := s\<rparr>) = Inr None)
 \<and> (findOneOrFail (\<lambda>u. user_id u = req_user ctx) (users (em ctx)) = Some user
      \<and> findOneOrFail (\<lambda>p. post_id p = i) (posts (em ctx)) = Some p
      \<and> user_id (post_writer p) = req_user ctx \<and> one_object_per_row (post_writer p) user
      \<and> accepts ctx (remove_Post p (em ctx)) \<longrightarrow>
      deletePost i ctx = (Inr True, remove_Post p (em ctx)))
 \<and> (\<exists>e. fst (deletePost i ctx) = Inl e) \<noteq> (fst (deletePost i ctx) = Inr True)"
proof -
  have a: "b \<and> i \<notin> post_id ` set (posts s)
      \<and> post \<lparr>q_id = Given i, q_slug = qs, q_title = qt\<rparr> (ctx\<lparr>em := s\<rparr>) = Inr None"
    if del: "deletePost i ctx = (Inr b, s)"
  proof -
    have "\<exists>p. findOneOrFail (\<lambda>p. post_id p = i) (posts (em ctx)) = Some p
        \<and> s = remove_Post p (em ctx) \<and> b"
      using del
      by (auto simp add: deletePost_def flush_def split: option.splits if_splits)
    then obtain p where p: "findOneOrFail (\<lambda>p. post_id p = i) (posts (em ctx)) = Some p"
      and s: "s = remove_Post p (em ctx)" and b: "b"
      by blast
    have i: "post_id p = i"
      using findOneOrFail_Some [OF p] by simp
    have gone: "i \<notin> post_id ` set (posts s)"
      using s i by (auto simp add: remove_Post_def)
    then have "post \<lparr>q_id = Given i, q_slug = qs, q_title = qt\<rparr> (ctx\<lparr>em := s\<rparr>) = Inr None"
      by (auto simp add: post_def findOne_def find_None_iff agrees_def)
    with b gone show ?thesis by simp
  qed
  have c: "deletePost i ctx = (Inr True, remove_Post p (em ctx))"
    if u: "findOneOrFail (\<lambda>u. user_id u = req_user ctx) (users (em ctx)) = Some user"
      and f: "findOneOrFail (\<lambda>p. post_id p = i) (posts (em ctx)) = Some p"
      and o: "user_id (post_writer p) = req_user ctx" "one_object_per_row (post_writer p) user"
      and ok: "accepts ctx (remove_Post p (em ctx))"
  proof -
    have "user_id user = req_user ctx"
      using findOneOrFail_Some [OF u] by simp
    then have "post_writer p = user"
      using o by (simp add: one_object_per_row_def)
    then show ?thesis
      using u f ok by (simp add: deletePost_def flush_def)
  qed
  have d: "(\<exists>e. fst (deletePost i ctx) = Inl e) \<noteq> (fst (deletePost i ctx) = Inr True)"
    by (auto simp add: deletePost_def flush_def split: option.splits if_splits)
  show ?thesis
    using a c d by blast
qed

text \<open>Alice deletes her Post \<open>p1\<close>.\<close>

theorem deletePost_removes_or_throws_witness:
  "deletePost ''p1'' ctx_alice = (Inr True, remove_Post post1 store0)
   \<and> ''p1'' \<notin> post_id ` set (posts (remove_Post post1 store0))
   \<and> post \<lparr>q_id = Given ''p1'', q_slug = Absent, q_title = Absent\<rparr>
        (ctx_alice\<lparr>em := remove_Post post1 store0\<rparr>) = Inr None
   \<and> post \<lparr>q_id = Given ''p1'', q_slug = Absent, q_title = Absent\<rparr> ctx_alice
        = Inr (Some post1)"
proof -
  have hu: "findOneOrFail (\<lambda>u. user_id u = req_user ctx_alice) (users (em ctx_alice)) = Some alice"
    by (simp add: em_examples req_user_examples find_alice)
  have hp: "findOneOrFail (\<lambda>p. post_id p = ''p1'') (posts (em ctx_alice)) = Some post1"
    by (simp add: em_examples find_post1)
  have hw: "user_id (post_writer post1) = req_user ctx_alice"
    by (simp add: post1_def alice_def req_user_examples)
  have ho: "one_object_per_row (post_writer post1) alice"
    by (simp add: one_object_per_row_def post1_def)
  have ha: "accepts ctx_alice (remove_Post post1 (em ctx_alice))"
    by (simp add: ctx_alice_def accepts_all_def)
  have before: "post \<lparr>q_id = Given ''p1'', q_slug = Absent, q_title = Absent\<rparr> ctx_alice
      = Inr (Some post1)"
    using find_post1 by (simp add: post_def agrees_def findOne_def findOneOrFail_def em_examples)
  have c: "deletePost ''p1'' ctx_alice = (Inr True, remove_Post post1 (em ctx_alice))"
    using hu hp hw ho ha
      deletePost_removes_or_throws [of "''p1''" ctx_alice True "remove_Post post1 (em ctx_alice)"
        Absent Absent alice post1]
    by blast
  have g: "''p1'' \<notin> post_id ` set (posts (remove_Post post1 (em ctx_alice)))
      \<and> post \<lparr>q_id = Given ''p1'', q_slug = Absent, q_title = Absent\<rparr>
          (ctx_alice\<lparr>em := remove_Post post1 (em ctx_alice)\<rparr>) = Inr None"
    using c
      deletePost_removes_or_throws [of "''p1''" ctx_alice True "remove_Post post1 (em ctx_alice)"
        Absent Absent alice post1]
    by blast
  show ?thesis
    using c g before by (simp add: em_examples)
qed

text \<open>
  C8, as the spec states it, fails where the writer of the Post is a second object for the
  row of the acting user: Alice is the writer of the Post \<open>p3\<close> by identifier, the database
  accepts every write, and deletePost throws ForbiddenError and leaves the Post where it
  was.
\<close>

theorem deletePost_by_writer_counterexample:
  "post3 \<in> set (posts (em ctx_alice)) \<and> post_id post3 = ''p3''
   \<and> user_id (post_writer post3) = req_user ctx_alice
   \<and> accepts ctx_alice (remove_Post post3 (em ctx_alice))
   \<and> deletePost ''p3'' ctx_alice = (Inl ForbiddenError, em ctx_alice)
   \<and> post \<lparr>q_id = Given ''p3'', q_slug = Absent, q_title = Absent\<rparr>
        (ctx_alice\<lparr>em := snd (deletePost ''p3'' ctx_alice)\<rparr>) = Inr (Some post3)"
proof -
  have a: "post3 \<in> set (posts (em ctx_alice)) \<and> post_id post3 = ''p3''
      \<and> user_id (post_writer post3) = req_user ctx_alice"
    by (simp add: em_examples req_user_examples store0_def post3_def alice_again_def)
  have ok: "accepts ctx_alice (remove_Post post3 (em ctx_alice))"
    by (simp add: ctx_alice_def accepts_all_def)
  have w: "alice \<noteq> post_writer post3"
    by (simp add: post3_def alice_def alice_again_def)
  have d: "deletePost ''p3'' ctx_alice = (Inl ForbiddenError, em ctx_alice)"
    using w by (simp add: deletePost_def em_examples req_user_examples find_alice find_post3)
  have same: "ctx_alice\<lparr>em := em ctx_alice\<rparr> = ctx_alice"
    by simp
  have q: "post \<lparr>q_id = Given ''p3'', q_slug = Absent, q_title = Absent\<rparr> ctx_alice
      = Inr (Some post3)"
    using find_post3 by (simp add: post_def agrees_def findOne_def findOneOrFail_def em_examples)
  show ?thesis
    using a ok d q same by simp
qed

section \<open>Listing Posts\<close>

text \<open>
  C6, as the code has it. Let the filter name a non-empty Type identifier \<open>T\<close>. Whatever the
  bounds, every Post that Posts returns has type \<open>T\<close>. Let the filter name no writer, let a
  Type \<open>T\<close> exist, and let the bounds be the natural numbers \<open>n\<close> (the limit, 10 when the
  request leaves it out) and \<open>m\<close> (the offset, 0 when the request leaves it out). With a
  limit above zero Posts returns the Posts of type \<open>T\<close>, in the order of the store, from
  position \<open>m\<close> on and at most \<open>n\<close> of them, that is the rows numbered \<open>m\<close> up to \<open>m + n\<close>
  (or the last). With the limit zero no limit is set: Posts returns all of them from
  position \<open>m\<close> on. And an empty Type identifier is no filter: Posts answers as if the type
  had been left out.
\<close>

theorem Posts_filters_by_type_and_pages:
  "(f_type input = Some T \<and> T \<noteq> [] \<longrightarrow>
      (Posts_request input limit offset ctx = Inr page \<longrightarrow>
         (\<forall>p \<in> set page. type_id (post_type p) = T))
    \<and> (f_writer input = None \<and> T \<in> type_id ` set (types (em ctx))
        \<and> (case limit of None \<Rightarrow> 10 | Some x \<Rightarrow> x) = of_nat n
        \<and> (case offset of None \<Rightarrow> 0 | Some x \<Rightarrow> x) = of_nat m \<longrightarrow>
         (let rows = filter (\<lambda>p. type_id (post_type p) = T) (posts (em ctx)) in
            (0 < n \<longrightarrow>
               Posts_request input limit offset ctx = Inr (take n (drop m rows))
             \<and> take n (drop m rows) = map (\<lambda>j. rows ! j) [m ..< min (m + n) (length rows)])
          \<and> (n = 0 \<longrightarrow> Posts_request input limit offset ctx = Inr (drop m rows)))))
 \<and> (f_type input = Some [] \<longrightarrow>
      Posts_request input limit offset ctx =
        Posts_request (input\<lparr>f_type := None\<rparr>) limit offset ctx)"
proof -
  have a: "\<forall>p \<in> set page. type_id (post_type p) = T"
    if "f_type input = Some T" and "T \<noteq> []"
      and "Posts_request input limit offset ctx = Inr page"
    using that Posts_only_type [of input T _ _ ctx page] by (simp add: Posts_request_def)
  have b: "Posts_request input limit offset ctx =
             Inr (slice (if n = 0 then None else Some n) m
                   (filter (\<lambda>p. type_id (post_type p) = T) (posts (em ctx))))"
    if "f_type input = Some T" and "T \<noteq> []" and "f_writer input = None"
      and "T \<in> type_id ` set (types (em ctx))"
      and "(case limit of None \<Rightarrow> 10 | Some x \<Rightarrow> x) = of_nat n"
      and "(case offset of None \<Rightarrow> 0 | Some x \<Rightarrow> x) = of_nat m"
    using that Posts_page_of_type [of input T ctx n m] by (simp add: Posts_request_def)
  have b1: "Posts_request input limit offset ctx =
             Inr (take n (drop m (filter (\<lambda>p. type_id (post_type p) = T) (posts (em ctx)))))"
    if "f_type input = Some T" and "T \<noteq> []" and "f_writer input = None"
      and "T \<in> type_id ` set (types (em ctx))"
      and "(case limit of None \<Rightarrow> 10 | Some x \<Rightarrow> x) = of_nat n"
      and "(case offset of None \<Rightarrow> 0 | Some x \<Rightarrow> x) = of_nat m"
      and "0 < n"
    using b that by (simp add: slice_def)
  have b0: "Posts_request input limit offset ctx =
             Inr (drop m (filter (\<lambda>p. type_id (post_type p) = T) (posts (em ctx))))"
    if "f_type input = Some T" and "T \<noteq> []" and "f_writer input = None"
      and "T \<in> type_id ` set (types (em ctx))"
      and "(case limit of None \<Rightarrow> 10 | Some x \<Rightarrow> x) = of_nat n"
      and "(case offset of None \<Rightarrow> 0 | Some x \<Rightarrow> x) = of_nat m"
      and "n = 0"
    using b that by (simp add: slice_def)
  have e: "Posts_request input limit offset ctx =
        Posts_request (input\<lparr>f_type := None\<rparr>) limit offset ctx"
    if "f_type input = Some []"
    using that Posts_empty_type [of input] by (simp add: Posts_request_def)
  show ?thesis
    unfolding Let_def using a b1 b0 e page_by_index by blast
qed

text \<open>
  Of the three Posts of the examples, the first and the third have the type \<open>news\<close>: with
  limit 1 and offset 1 the page is the third Post; with neither, both are returned.
\<close>

theorem Posts_filters_by_type_and_pages_witness:
  "Posts_request \<lparr>f_type = Some ''news'', f_writer = None\<rparr> (Some 1) (Some 1) ctx_alice
     = Inr [post3]
   \<and> Posts_request \<lparr>f_type = Some ''news'', f_writer = None\<rparr> None None ctx_alice
     = Inr [post1, post3]
   \<and> Posts_request \<lparr>f_type = Some ''news'', f_writer = None\<rparr> (Some 0) (Some 1) ctx_alice
     = Inr [post3]
   \<and> type_id (post_type post1) = ''news'' \<and> type_id (post_type post3) = ''news''
   \<and> Posts_request \<lparr>f_type = Some [], f_writer = None\<rparr> None None ctx_alice
     = Posts_request \<lparr>f_type = None, f_writer = None\<rparr> None None ctx_alice"
proof -
  have ty: "''news'' \<in> type_id ` set (types (em ctx_alice))"
    by (simp add: em_examples store0_def news_def)
  have rows: "filter (\<lambda>p. type_id (post_type p) = ''news'') (posts (em ctx_alice))
      = [post1, post3]"
    by (simp add: em_examples store0_def post1_def post2_def post3_def news_def essay_def)
  have a: "Posts_request \<lparr>f_type = Some ''news'', f_writer = None\<rparr> (Some 1) (Some 1) ctx_alice
     = Inr [post3]"
    using ty rows
      Posts_filters_by_type_and_pages [where input = "\<lparr>f_type = Some ''news'', f_writer = None\<rparr>"
        and T = "''news''" and limit = "Some 1" and offset = "Some 1" and ctx = ctx_alice
        and n = 1 and m = 1 and page = "[]"]
    by (simp add: Let_def)
  have b: "Posts_request \<lparr>f_type = Some ''news'', f_writer = None\<rparr> None None ctx_alice
     = Inr [post1, post3]"
    using ty rows
      Posts_filters_by_type_and_pages [where input = "\<lparr>f_type = Some ''news'', f_writer = None\<rparr>"
        and T = "''news''" and limit = None and offset = None and ctx = ctx_alice
        and n = 10 and m = 0 and page = "[]"]
    by (simp add: Let_def)
  have z: "Posts_request \<lparr>f_type = Some ''news'', f_writer = None\<rparr> (Some 0) (Some 1) ctx_alice
     = Inr [post3]"
    using ty rows
      Posts_filters_by_type_and_pages [where input = "\<lparr>f_type = Some ''news'', f_writer = None\<rparr>"
        and T = "''news''" and limit = "Some 0" and offset = "Some 1" and ctx = ctx_alice
        and n = 0 and m = 1 and page = "[]"]
    by (simp add: Let_def)
  have c: "type_id (post_type post1) = ''news'' \<and> type_id (post_type post3) = ''news''"
    using b
      Posts_filters_by_type_and_pages [where input = "\<lparr>f_type = Some ''news'', f_writer = None\<rparr>"
        and T = "''news''" and limit = None and offset = None and ctx = ctx_alice
        and page = "[post1, post3]"]
    by simp
  have e: "Posts_request \<lparr>f_type = Some [], f_writer = None\<rparr> None None ctx_alice
     = Posts_request \<lparr>f_type = None, f_writer = None\<rparr> None None ctx_alice"
    using Posts_filters_by_type_and_pages [where input = "\<lparr>f_type = Some [], f_writer = None\<rparr>"
        and limit = None and offset = None and ctx = ctx_alice]
    by simp
  show ?thesis
    using a b z c e by blast
qed

text \<open>
  C6, as the spec states it, fails twice. For the empty Type identifier the test
  \<^verbatim>\<open>if(input.type)\<close> treats the field as absent, and the page holds Posts of every type. And
  with the limit zero the page is not empty: both Posts of type \<open>news\<close> are returned.
\<close>

theorem Posts_empty_type_counterexample:
  "Posts_request \<lparr>f_type = Some [], f_writer = None\<rparr> None None ctx_alice
     = Inr [post1, post2, post3]
   \<and> type_id (post_type post2) \<noteq> []
   \<and> Posts_request \<lparr>f_type = Some ''news'', f_writer = None\<rparr> (Some 0) None ctx_alice
     = Inr [post1, post3]"
proof -
  have bd: "bounds ctx_alice 10 0 n = Inr (Some 10, 0)" for n
    using bounds_of_nat [of ctx_alice 10 0 n] by simp
  have a: "Posts_request \<lparr>f_type = Some [], f_writer = None\<rparr> None None ctx_alice
     = Inr [post1, post2, post3]"
    by (simp add: Posts_request_def Posts_def filter_type_def filter_writer_def truthy_def
        find_page_def bd slice_def matches_def em_examples store0_def)
  have b: "type_id (post_type post2) \<noteq> []"
    by (simp add: post2_def essay_def)
  have ty: "''news'' \<in> type_id ` set (types (em ctx_alice))"
    by (simp add: em_examples store0_def news_def)
  have rows: "filter (\<lambda>p. type_id (post_type p) = ''news'') (posts (em ctx_alice))
      = [post1, post3]"
    by (simp add: em_examples store0_def post1_def post2_def post3_def news_def essay_def)
  have c: "Posts_request \<lparr>f_type = Some ''news'', f_writer = None\<rparr> (Some 0) None ctx_alice
     = Inr [post1, post3]"
    using ty rows
      Posts_page_of_type [of "\<lparr>f_type = Some ''news'', f_writer = None\<rparr>" "''news''" ctx_alice 0 0]
    by (simp add: Posts_request_def slice_def)
  show ?thesis
    using a b c by blast
qed

end
